theory Spec2Isabelle
  imports Complex_Main "HOL-Library.Sublist"
begin

section \<open>Python strings\<close>

text \<open>
  A Python \<open>str\<close> is modelled as a \<open>string\<close>: a list of characters with code points
  below 256. The functions of this section are the \<open>str\<close> methods that
  \<open>parse_wkt_multipolygon\<close> (backend.py) calls.
\<close>

definition isspace :: "char \<Rightarrow> bool" where
  \<comment> \<open>\<open>str.isspace\<close> on one character, which is also what \<open>strip()\<close>, \<open>split()\<close> and the
      pattern \<open>\s\<close> test: code points 9-13, 28-32, 133 and 160.\<close>
  "isspace c =
     (let n = (of_char c :: nat)
      in (9 \<le> n \<and> n \<le> 13) \<or> (28 \<le> n \<and> n \<le> 32) \<or> n = 133 \<or> n = 160)"

definition strip :: "string \<Rightarrow> string" where
  \<comment> \<open>\<open>s.strip()\<close>\<close>
  "strip s = rev (dropWhile isspace (rev (dropWhile isspace s)))"

definition strip_chars :: "string \<Rightarrow> string \<Rightarrow> string" where
  \<comment> \<open>\<open>s.strip(chars)\<close>\<close>
  "strip_chars chars s =
     rev (dropWhile (\<lambda>c. c \<in> set chars) (rev (dropWhile (\<lambda>c. c \<in> set chars) s)))"

definition startswith :: "string \<Rightarrow> string \<Rightarrow> bool" where
  \<comment> \<open>\<open>s.startswith(p)\<close>\<close>
  "startswith s p = (take (length p) s = p)"

fun split_sep :: "char \<Rightarrow> string \<Rightarrow> string \<Rightarrow> string list" where
  \<comment> \<open>\<open>s.split(sep)\<close> for a separator of one character; \<open>cur\<close> is the piece being read.\<close>
  "split_sep sep cur [] = [cur]"
| "split_sep sep cur (c # cs) =
     (if c = sep then cur # split_sep sep [] cs else split_sep sep (cur @ [c]) cs)"

definition str_split :: "string \<Rightarrow> char \<Rightarrow> string list" where
  "str_split s sep = split_sep sep [] s"

fun split_ws :: "string \<Rightarrow> string \<Rightarrow> string list" where
  \<comment> \<open>\<open>s.split()\<close>: the maximal runs of characters that are not whitespace.\<close>
  "split_ws cur [] = (if cur = [] then [] else [cur])"
| "split_ws cur (c # cs) =
     (if isspace c then (if cur = [] then split_ws [] cs else cur # split_ws [] cs)
      else split_ws (cur @ [c]) cs)"

definition str_split_ws :: "string \<Rightarrow> string list" where
  "str_split_ws s = split_ws [] s"

section \<open>Exceptions and indexing\<close>

datatype exn = ValueError | IndexError

definition getitem :: "'a list \<Rightarrow> nat \<Rightarrow> exn + 'a" where
  \<comment> \<open>\<open>xs[i]\<close> for a literal index \<open>i \<ge> 0\<close>\<close>
  "getitem xs i = (if i < length xs then Inr (xs ! i) else Inl IndexError)"

section \<open>The builtin \<open>float\<close>\<close>

text \<open>
  \<open>float(s)\<close> accepts an optional sign followed by \<open>inf\<close>, \<open>infinity\<close> or \<open>nan\<close> in any
  letter case, or by a decimal literal: digits with single underscores between them, an
  optional fraction and an optional exponent. Everything else raises \<open>ValueError\<close>.
  A finite literal is given its exact decimal value as a rational number; the rounding of
  that value to the nearest binary64 number (and the overflow of a huge literal to an
  infinity) is not part of the model.
\<close>

datatype pyfloat = Finite rat | Infinity bool | NaN

definition isdigit :: "char \<Rightarrow> bool" where
  "isdigit c = (let n = (of_char c :: nat) in 48 \<le> n \<and> n \<le> 57)"

definition digit_val :: "char \<Rightarrow> nat" where
  "digit_val c = of_char c - 48"

definition ascii_lower :: "char \<Rightarrow> char" where
  "ascii_lower c =
     (let n = (of_char c :: nat) in if 65 \<le> n \<and> n \<le> 90 then char_of (n + 32) else c)"

fun digitpart :: "string \<Rightarrow> string \<times> string" where
  \<comment> \<open>the longest prefix of the form digit (["_"] digit)*, its underscores removed, and
      the rest of the string\<close>
  "digitpart [] = ([], [])"
| "digitpart [c] = (if isdigit c then ([c], []) else ([], [c]))"
| "digitpart (c # u # cs) =
     (if \<not> isdigit c then ([], c # u # cs)
      else if isdigit u then (case digitpart (u # cs) of (ds, r) \<Rightarrow> (c # ds, r))
      else if u = CHR ''_'' \<and> cs \<noteq> [] \<and> isdigit (hd cs)
           then (case digitpart cs of (ds, r) \<Rightarrow> (c # ds, r))
      else ([c], u # cs))"

definition digits_val :: "string \<Rightarrow> nat" where
  "digits_val ds = foldl (\<lambda>n c. 10 * n + digit_val c) 0 ds"

definition sign :: "string \<Rightarrow> bool \<times> string" where
  \<comment> \<open>an optional sign: whether it is a minus, and the rest\<close>
  "sign s =
     (case s of
        [] \<Rightarrow> (False, [])
      | c # cs \<Rightarrow>
          if c = CHR ''-'' then (True, cs) else if c = CHR ''+'' then (False, cs) else (False, s))"

definition number :: "string \<Rightarrow> (string \<times> string \<times> string) option" where
  \<comment> \<open>\<open>[digitpart] "." digitpart | digitpart ["."]\<close>: the integer digits, the fraction
      digits and the rest\<close>
  "number s =
     (case digitpart s of
        (ip, r) \<Rightarrow>
          (case r of
             [] \<Rightarrow> if ip = [] then None else Some (ip, [], [])
           | c # r' \<Rightarrow>
               if c = CHR ''.''
               then (case digitpart r' of
                       (fp, r'') \<Rightarrow> if ip = [] \<and> fp = [] then None else Some (ip, fp, r''))
               else if ip = [] then None else Some (ip, [], r)))"

definition exponent :: "string \<Rightarrow> int option" where
  \<comment> \<open>nothing, or \<open>("e" | "E") [sign] digitpart\<close>, up to the end of the string\<close>
  "exponent s =
     (case s of
        [] \<Rightarrow> Some 0
      | c # cs \<Rightarrow>
          if c = CHR ''e'' \<or> c = CHR ''E''
          then (case sign cs of
                  (neg, r) \<Rightarrow>
                    (case digitpart r of
                       (ds, r') \<Rightarrow>
                         if ds = [] \<or> r' \<noteq> [] then None
                         else Some (if neg then - int (digits_val ds) else int (digits_val ds))))
          else None)"

definition scale10 :: "rat \<Rightarrow> int \<Rightarrow> rat" where
  "scale10 x e = (if 0 \<le> e then x * 10 ^ nat e else x / 10 ^ nat (- e))"

definition py_float :: "string \<Rightarrow> exn + pyfloat" where
  "py_float s =
     (case sign s of
        (neg, a) \<Rightarrow>
          if map ascii_lower a = ''inf'' \<or> map ascii_lower a = ''infinity'' then Inr (Infinity neg)
          else if map ascii_lower a = ''nan'' then Inr NaN
          else (case number a of
                  None \<Rightarrow> Inl ValueError
                | Some (ip, fp, r) \<Rightarrow>
                    (case exponent r of
                       None \<Rightarrow> Inl ValueError
                     | Some e \<Rightarrow>
                         (let m = scale10 (of_nat (digits_val (ip @ fp))) (e - int (length fp))
                          in Inr (Finite (if neg then - m else m))))))"

section \<open>Regular expressions\<close>

text \<open>
  The three patterns of \<open>parse_wkt_multipolygon\<close> use literals, \<open>\s\<close>, \<open>.\<close> (under
  \<open>re.DOTALL\<close>), the class \<open>[^()]\<close>, \<open>$\<close>, the greedy \<open>*\<close> and \<open>+\<close>, the lazy \<open>+?\<close>, a
  non-capturing group and one capturing group. The matcher is the backtracking matcher of
  Python's \<open>re\<close>: \<open>rmatch r\<close> maps a state (the text still to read, and what group 1
  captured) to every state in which a match of \<open>r\<close> can end, in the order in which
  backtracking tries them. The match that \<open>re\<close> reports is the first of the list.
\<close>

datatype regex =
    Lit string          \<comment> \<open>literal text\<close>
  | Space               \<comment> \<open>\<open>\s\<close>\<close>
  | Dot                 \<comment> \<open>\<open>.\<close> under \<open>re.DOTALL\<close>: any character\<close>
  | NoneOf string       \<comment> \<open>\<open>[^...]\<close>\<close>
  | Eol                 \<comment> \<open>\<open>$\<close> without \<open>re.MULTILINE\<close>\<close>
  | Seq regex regex
  | Star regex          \<comment> \<open>greedy \<open>*\<close>\<close>
  | Plus regex          \<comment> \<open>greedy \<open>+\<close>\<close>
  | LazyPlus regex      \<comment> \<open>\<open>+?\<close>\<close>
  | Group regex         \<comment> \<open>capturing group 1\<close>

type_synonym mstate = "string \<times> string option"

definition one_char :: "(char \<Rightarrow> bool) \<Rightarrow> mstate \<Rightarrow> mstate list" where
  "one_char p st =
     (case fst st of [] \<Rightarrow> [] | c # cs \<Rightarrow> if p c then [(cs, snd st)] else [])"

definition progress :: "mstate \<Rightarrow> mstate \<Rightarrow> bool" where
  \<comment> \<open>the step from \<open>st\<close> to \<open>st'\<close> has read at least one character\<close>
  "progress st st' = (length (fst st') < length (fst st))"

text \<open>
  A greedy repetition tries one more round of its body first and stops last; a lazy one
  stops first. A round that reads nothing is not repeated (the bodies repeated in this
  file always read a character).
\<close>

function star_greedy :: "(mstate \<Rightarrow> mstate list) \<Rightarrow> mstate \<Rightarrow> mstate list" where
  "star_greedy m st = concat (map (star_greedy m) (filter (progress st) (m st))) @ [st]"
  by pat_completeness auto
termination
  by (relation "measure (\<lambda>(m, st). length (fst st))") (auto simp: progress_def)

function star_lazy :: "(mstate \<Rightarrow> mstate list) \<Rightarrow> mstate \<Rightarrow> mstate list" where
  "star_lazy m st = st # concat (map (star_lazy m) (filter (progress st) (m st)))"
  by pat_completeness auto
termination
  by (relation "measure (\<lambda>(m, st). length (fst st))") (auto simp: progress_def)

declare star_greedy.simps [simp del]
declare star_lazy.simps [simp del]

primrec rmatch :: "regex \<Rightarrow> mstate \<Rightarrow> mstate list" where
  "rmatch (Lit cs) st =
     (if startswith (fst st) cs then [(drop (length cs) (fst st), snd st)] else [])"
| "rmatch Space st = one_char isspace st"
| "rmatch Dot st = one_char (\<lambda>c. True) st"
| "rmatch (NoneOf cs) st = one_char (\<lambda>c. c \<notin> set cs) st"
| "rmatch Eol st = (if fst st = [] \<or> fst st = [CHR 0x0A] then [st] else [])"
| "rmatch (Seq a b) st = concat (map (rmatch b) (rmatch a st))"
| "rmatch (Star a) st = star_greedy (rmatch a) st"
| "rmatch (Plus a) st = concat (map (star_greedy (rmatch a)) (rmatch a st))"
| "rmatch (LazyPlus a) st = concat (map (star_lazy (rmatch a)) (rmatch a st))"
| "rmatch (Group a) st =
     map (\<lambda>st'. (fst st', Some (take (length (fst st) - length (fst st')) (fst st))))
       (rmatch a st)"

definition re_match :: "regex \<Rightarrow> string \<Rightarrow> mstate option" where
  \<comment> \<open>\<open>re.match(r, s)\<close>: the match at the start of \<open>s\<close>, as the text after it and group 1\<close>
  "re_match r s = (case rmatch r (s, None) of [] \<Rightarrow> None | st # _ \<Rightarrow> Some st)"

fun re_search :: "regex \<Rightarrow> string \<Rightarrow> mstate option" where
  \<comment> \<open>\<open>re.search(r, s)\<close>: the match at the leftmost position that has one\<close>
  "re_search r [] = re_match r []"
| "re_search r (c # cs) =
     (case re_match r (c # cs) of Some st \<Rightarrow> Some st | None \<Rightarrow> re_search r cs)"

definition group1 :: "mstate \<Rightarrow> string" where
  \<comment> \<open>\<open>m.group(1)\<close> of a match in which group 1 took part\<close>
  "group1 st = (case snd st of None \<Rightarrow> [] | Some g \<Rightarrow> g)"

text \<open>
  \<open>re.findall\<close> and \<open>re.split\<close> scan from left to right and go on after the end of each
  match. The patterns they are called with here cannot match the empty string; a match
  that reads nothing is treated as no match at that position.
\<close>

function re_findall :: "regex \<Rightarrow> string \<Rightarrow> string list" where
  \<comment> \<open>\<open>re.findall(r, s)\<close> for a pattern with one group: group 1 of every match\<close>
  "re_findall r s =
     (case re_match r s of
        Some st \<Rightarrow>
          if progress (s, None) st then group1 st # re_findall r (fst st)
          else (case s of [] \<Rightarrow> [] | c # cs \<Rightarrow> re_findall r cs)
      | None \<Rightarrow> (case s of [] \<Rightarrow> [] | c # cs \<Rightarrow> re_findall r cs))"
  by pat_completeness auto
termination
  by (relation "measure (\<lambda>(r, s). length s)") (auto simp: progress_def)

function split_re :: "regex \<Rightarrow> string \<Rightarrow> string \<Rightarrow> string list" where
  \<comment> \<open>\<open>cur\<close> is the piece being read\<close>
  "split_re r cur s =
     (case re_match r s of
        Some st \<Rightarrow>
          if progress (s, None) st then cur # split_re r [] (fst st)
          else (case s of [] \<Rightarrow> [cur] | c # cs \<Rightarrow> split_re r (cur @ [c]) cs)
      | None \<Rightarrow> (case s of [] \<Rightarrow> [cur] | c # cs \<Rightarrow> split_re r (cur @ [c]) cs))"
  by pat_completeness auto
termination
  by (relation "measure (\<lambda>(r, cur, s). length s)") (auto simp: progress_def)

declare re_findall.simps [simp del]
declare split_re.simps [simp del]

definition re_split :: "regex \<Rightarrow> string \<Rightarrow> string list" where
  \<comment> \<open>\<open>re.split(r, s)\<close> for a pattern without groups\<close>
  "re_split r s = split_re r [] s"

section \<open>parse_wkt_multipolygon\<close>

text \<open>
  A coordinate is the Python list \<open>[lon, lat]\<close>, a ring a list of coordinates, a polygon a
  list of rings. A cell of the column \<open>the_geom\<close> is a string, or the missing value that
  \<open>pd.isna\<close> recognises.
\<close>

type_synonym coord = "pyfloat list"
type_synonym ring = "coord list"
type_synonym polygon = "ring list"

datatype cell = NA | Str string

definition outer_pattern :: regex where
  \<comment> \<open>\<open>MULTIPOLYGON\s*\(\s*(.+)\s*\)$\<close>\<close>
  "outer_pattern =
     Seq (Lit ''MULTIPOLYGON'') (Seq (Star Space) (Seq (Lit ''('') (Seq (Star Space)
       (Seq (Group (Plus Dot)) (Seq (Star Space) (Seq (Lit '')'') Eol))))))"

definition polygon_pattern :: regex where
  \<comment> \<open>\<open>\(\(([^()]+(?:\([^()]*\)[^()]*)*)\)\)\<close>\<close>
  "polygon_pattern =
     Seq (Lit ''(('')
       (Seq (Group (Seq (Plus (NoneOf ''()''))
                     (Star (Seq (Lit ''('') (Seq (Star (NoneOf ''()''))
                        (Seq (Lit '')'') (Star (NoneOf ''()''))))))))
          (Lit ''))''))"

definition ring_separator :: regex where
  \<comment> \<open>\<open>\)\s*,\s*\(\<close>\<close>
  "ring_separator =
     Seq (Lit '')'') (Seq (Star Space) (Seq (Lit '','') (Seq (Star Space) (Lit ''(''))))"

definition triple_pattern :: regex where
  \<comment> \<open>\<open>\(\(\((.+?)\)\)\)\<close>\<close>
  "triple_pattern = Seq (Lit ''((('') (Seq (Group (LazyPlus Dot)) (Lit '')))''))"

fun parse_pairs :: "string list \<Rightarrow> ring \<Rightarrow> exn + ring" where
  \<comment> \<open>the loop \<open>for pair in ...split(',')\<close> (lines 373-382 and 397-406): \<open>coords\<close> is the
      list built so far; a \<open>ValueError\<close> of \<open>float\<close> is caught and the loop continues\<close>
  "parse_pairs [] coords = Inr coords"
| "parse_pairs (pair # rest) coords =
     (let pair = strip pair; parts = str_split_ws pair
      in if length parts \<ge> 2
         then (case getitem parts 0 of
                 Inl e \<Rightarrow> Inl e
               | Inr p0 \<Rightarrow>
                   (case py_float p0 of
                      Inl ValueError \<Rightarrow> parse_pairs rest coords
                    | Inl IndexError \<Rightarrow> Inl IndexError
                    | Inr lon \<Rightarrow>
                        (case getitem parts 1 of
                           Inl e \<Rightarrow> Inl e
                         | Inr p1 \<Rightarrow>
                             (case py_float p1 of
                                Inl ValueError \<Rightarrow> parse_pairs rest coords
                              | Inl IndexError \<Rightarrow> Inl IndexError
                              | Inr lat \<Rightarrow> parse_pairs rest (coords @ [[lon, lat]])))))
         else parse_pairs rest coords)"

definition parse_coords :: "string \<Rightarrow> exn + ring" where
  \<comment> \<open>\<open>coords = []\<close> and the loop over \<open>s.split(',')\<close>\<close>
  "parse_coords s = parse_pairs (str_split s CHR '','') []"

fun parse_rings :: "string list \<Rightarrow> polygon \<Rightarrow> exn + polygon" where
  \<comment> \<open>the loop \<open>for ring_str in ring_parts\<close> (lines 367-385)\<close>
  "parse_rings [] rings = Inr rings"
| "parse_rings (ring_str # rest) rings =
     (let ring_str = strip_chars ''()'' (strip ring_str)
      in case parse_coords ring_str of
           Inl e \<Rightarrow> Inl e
         | Inr coords \<Rightarrow>
             if length coords \<ge> 3 then parse_rings rest (rings @ [coords])
             else parse_rings rest rings)"

fun parse_polygons :: "string list \<Rightarrow> polygon list \<Rightarrow> exn + polygon list" where
  \<comment> \<open>the loop \<open>for poly_content in polygon_matches\<close> (lines 362-388)\<close>
  "parse_polygons [] polygons = Inr polygons"
| "parse_polygons (poly_content # rest) polygons =
     (let ring_parts = re_split ring_separator poly_content
      in case parse_rings ring_parts [] of
           Inl e \<Rightarrow> Inl e
         | Inr rings \<Rightarrow>
             if rings \<noteq> [] then parse_polygons rest (polygons @ [rings])
             else parse_polygons rest polygons)"

definition simple_polygon :: "string \<Rightarrow> polygon list \<Rightarrow> exn + polygon list" where
  \<comment> \<open>the body of \<open>if not polygons:\<close> (lines 392-408), on the stripped string\<close>
  "simple_polygon wkt_string polygons =
     (case re_search triple_pattern wkt_string of
        None \<Rightarrow> Inr polygons
      | Some coords_match \<Rightarrow>
          (case parse_coords (group1 coords_match) of
             Inl e \<Rightarrow> Inl e
           | Inr coords \<Rightarrow>
               if length coords \<ge> 3 then Inr (polygons @ [[coords]]) else Inr polygons))"

definition collect_polygons :: "string \<Rightarrow> string \<Rightarrow> exn + polygon list" where
  \<comment> \<open>lines 355-408: the value of \<open>polygons\<close> before the final \<open>return\<close>, from the
      stripped string and the content of the outer parentheses\<close>
  "collect_polygons wkt_string content =
     (case parse_polygons (re_findall polygon_pattern content) [] of
        Inl e \<Rightarrow> Inl e
      | Inr polygons \<Rightarrow>
          if polygons = [] then simple_polygon wkt_string polygons else Inr polygons)"

definition parse_wkt_multipolygon :: "cell \<Rightarrow> exn + polygon list option" where
  \<comment> \<open>\<open>Inr None\<close> is the return value \<open>None\<close>; \<open>Inl e\<close> is an exception that leaves the
      function\<close>
  "parse_wkt_multipolygon wkt =
     (case wkt of
        NA \<Rightarrow> Inr None
      | Str s \<Rightarrow>
          if s = [] then Inr None
          else (let wkt_string = strip s
                in if \<not> startswith wkt_string ''MULTIPOLYGON'' then Inr None
                   else (case re_match outer_pattern wkt_string of
                           None \<Rightarrow> Inr None
                         | Some m \<Rightarrow>
                             (case collect_polygons wkt_string (group1 m) of
                                Inl e \<Rightarrow> Inl e
                              | Inr polygons \<Rightarrow>
                                  Inr (if polygons \<noteq> [] then Some polygons else None)))))"

section \<open>create_nta_geojson_full\<close>

datatype geometry = Polygon polygon | MultiPolygon "polygon list"

record row =
  NTAName :: string
  BoroName :: string
  NTA2020 :: string
  the_geom :: cell

record feature =
  geometry :: geometry
  prop_NTAName :: string
  prop_BoroName :: string
  prop_NTA2020 :: string
  feature_id :: string

definition row_geometry :: "cell \<Rightarrow> exn + geometry option" where
  \<comment> \<open>lines 424-438 on the cell \<open>row["the_geom"]\<close>: \<open>Inr None\<close> is \<open>continue\<close>\<close>
  "row_geometry g =
     (case parse_wkt_multipolygon g of
        Inl e \<Rightarrow> Inl e
      | Inr None \<Rightarrow> Inr None
      | Inr (Some polygons) \<Rightarrow>
          if length polygons = 1
          then (case getitem polygons 0 of Inl e \<Rightarrow> Inl e | Inr p \<Rightarrow> Inr (Some (Polygon p)))
          else Inr (Some (MultiPolygon polygons)))"

definition row_feature :: "row \<Rightarrow> exn + feature option" where
  \<comment> \<open>the body of the loop over the rows (lines 424-450)\<close>
  "row_feature r =
     (case row_geometry (the_geom r) of
        Inl e \<Rightarrow> Inl e
      | Inr None \<Rightarrow> Inr None
      | Inr (Some g) \<Rightarrow>
          Inr (Some \<lparr>geometry = g, prop_NTAName = NTAName r, prop_BoroName = BoroName r,
                     prop_NTA2020 = NTA2020 r, feature_id = NTAName r\<rparr>))"

fun collect_features :: "row list \<Rightarrow> feature list \<Rightarrow> exn + feature list" where
  \<comment> \<open>the loop \<open>for _, row in nta_geo.iterrows()\<close>; \<open>features\<close> is the list built so far\<close>
  "collect_features [] features = Inr features"
| "collect_features (r # rest) features =
     (case row_feature r of
        Inl e \<Rightarrow> Inl e
      | Inr None \<Rightarrow> collect_features rest features
      | Inr (Some f) \<Rightarrow> collect_features rest (features @ [f]))"

definition create_nta_geojson_full :: "row list \<Rightarrow> exn + feature list" where
  \<comment> \<open>the \<open>features\<close> of the returned FeatureCollection, from the rows of \<open>nta_geo\<close>\<close>
  "create_nta_geojson_full nta_geo = collect_features nta_geo []"

section \<open>The specification's descriptions\<close>

text \<open>
  The functions of this section are written from the words of the specification, to be
  compared with the loops of the source.
\<close>

definition is_float :: "string \<Rightarrow> bool" where
  \<comment> \<open>the token parses as a floating-point number\<close>
  "is_float t = (case py_float t of Inl _ \<Rightarrow> False | Inr _ \<Rightarrow> True)"

definition float_of :: "string \<Rightarrow> pyfloat" where
  "float_of t = (case py_float t of Inl _ \<Rightarrow> NaN | Inr x \<Rightarrow> x)"

definition tokens :: "string \<Rightarrow> string list" where
  \<comment> \<open>the whitespace-separated tokens of a candidate\<close>
  "tokens cand = str_split_ws cand"

definition contributes :: "string \<Rightarrow> bool" where
  \<comment> \<open>at least 2 tokens, and both of the first two parse as floating-point numbers\<close>
  "contributes cand =
     (2 \<le> length (tokens cand) \<and> is_float (tokens cand ! 0) \<and> is_float (tokens cand ! 1))"

definition coordinate_of :: "string \<Rightarrow> coord" where
  \<comment> \<open>first token longitude, second latitude\<close>
  "coordinate_of cand = [float_of (tokens cand ! 0), float_of (tokens cand ! 1)]"

definition coords_of :: "string \<Rightarrow> ring" where
  \<comment> \<open>the coordinates of the comma-separated candidates that contribute, in order\<close>
  "coords_of s = map coordinate_of (filter contributes (str_split s CHR '',''))"

definition ring_of :: "string \<Rightarrow> ring" where
  \<comment> \<open>a ring candidate, its surrounding whitespace and parentheses stripped\<close>
  "ring_of ring_str = coords_of (strip_chars ''()'' (strip ring_str))"

definition retained :: "ring \<Rightarrow> bool" where
  "retained coords = (3 \<le> length coords)"

definition rings_of :: "string \<Rightarrow> polygon" where
  \<comment> \<open>the retained rings of a polygon group, in order\<close>
  "rings_of poly_content =
     filter retained (map ring_of (re_split ring_separator poly_content))"

definition polygons_of :: "string \<Rightarrow> polygon list" where
  \<comment> \<open>the polygon groups of the content that keep a ring, in discovery order\<close>
  "polygons_of content =
     filter (\<lambda>rings. rings \<noteq> []) (map rings_of (re_findall polygon_pattern content))"

definition fallback_of :: "string \<Rightarrow> polygon list" where
  \<comment> \<open>the single-polygon path: the first triple-parenthesis block as one ring\<close>
  "fallback_of wkt_string =
     (case re_search triple_pattern wkt_string of
        None \<Rightarrow> []
      | Some m \<Rightarrow> if retained (coords_of (group1 m)) then [[coords_of (group1 m)]] else [])"

definition feature_of :: "row \<Rightarrow> feature option" where
  \<comment> \<open>the Feature of a row, if the row has one\<close>
  "feature_of r = (case row_feature r of Inl _ \<Rightarrow> None | Inr f \<Rightarrow> f)"

section \<open>Properties\<close>

subsection \<open>Every match of the patterns reads characters\<close>

text \<open>
  A match never ends before it starts, the rounds of the repetitions used in the patterns
  always read a character, and a match of the polygon pattern or of the ring separator is
  never empty: \<open>re_findall\<close> and \<open>re_split\<close> always go on after the end of a match.
\<close>

lemma star_greedy_le:
  "st' \<in> set (star_greedy m st) \<Longrightarrow> length (fst st') \<le> length (fst st)"
proof (induction m st arbitrary: st' rule: star_greedy.induct)
  case (1 m st)
  from "1.prems"
  have "st' = st \<or> (\<exists>x\<in>set (m st). progress st x \<and> st' \<in> set (star_greedy m x))"
    by (subst (asm) star_greedy.simps) auto
  then show ?case
  proof
    assume "st' = st"
    then show ?thesis by simp
  next
    assume "\<exists>x\<in>set (m st). progress st x \<and> st' \<in> set (star_greedy m x)"
    then obtain x where x: "x \<in> set (m st)" "progress st x" "st' \<in> set (star_greedy m x)"
      by blast
    then have "length (fst st') \<le> length (fst x)"
      using "1.IH" [of x st'] by simp
    with x(2) show ?thesis by (simp add: progress_def)
  qed
qed

lemma star_lazy_le:
  "st' \<in> set (star_lazy m st) \<Longrightarrow> length (fst st') \<le> length (fst st)"
proof (induction m st arbitrary: st' rule: star_lazy.induct)
  case (1 m st)
  from "1.prems"
  have "st' = st \<or> (\<exists>x\<in>set (m st). progress st x \<and> st' \<in> set (star_lazy m x))"
    by (subst (asm) star_lazy.simps) auto
  then show ?case
  proof
    assume "st' = st"
    then show ?thesis by simp
  next
    assume "\<exists>x\<in>set (m st). progress st x \<and> st' \<in> set (star_lazy m x)"
    then obtain x where x: "x \<in> set (m st)" "progress st x" "st' \<in> set (star_lazy m x)"
      by blast
    then have "length (fst st') \<le> length (fst x)"
      using "1.IH" [of x st'] by simp
    with x(2) show ?thesis by (simp add: progress_def)
  qed
qed

lemma one_char_progress: "st' \<in> set (one_char p st) \<Longrightarrow> progress st st'"
  by (cases st) (auto simp: one_char_def progress_def split: list.splits if_splits)

lemma rmatch_le: "st' \<in> set (rmatch r st) \<Longrightarrow> length (fst st') \<le> length (fst st)"
proof (induction r arbitrary: st st')
  case (Seq a b)
  then obtain x where "x \<in> set (rmatch a st)" "st' \<in> set (rmatch b x)" by auto
  with Seq.IH [of x st] Seq.IH(2) [of st' x] show ?case by simp
next
  case (Star a)
  then show ?case by (simp add: star_greedy_le)
next
  case (Plus a)
  then obtain x where "x \<in> set (rmatch a st)" "st' \<in> set (star_greedy (rmatch a) x)" by auto
  with Plus.IH [of x st] star_greedy_le [of st' "rmatch a" x] show ?case by simp
next
  case (LazyPlus a)
  then obtain x where "x \<in> set (rmatch a st)" "st' \<in> set (star_lazy (rmatch a) x)" by auto
  with LazyPlus.IH [of x st] star_lazy_le [of st' "rmatch a" x] show ?case by simp
next
  case (Group a)
  then obtain x where "x \<in> set (rmatch a st)" "fst st' = fst x" by auto
  with Group.IH [of x st] show ?case by simp
qed (auto dest: one_char_progress simp: progress_def split: if_splits)

lemma lit_seq_progress:
  assumes "cs \<noteq> []" and "st' \<in> set (rmatch (Seq (Lit cs) r) st)"
  shows "progress st st'"
proof -
  from assms(2) obtain x where x: "x \<in> set (rmatch (Lit cs) st)" "st' \<in> set (rmatch r x)"
    by auto
  from x(1) have "startswith (fst st) cs" and "fst x = drop (length cs) (fst st)"
    by (auto split: if_splits)
  with assms(1) have "length (fst x) < length (fst st)"
    by (cases "fst st") (auto simp: startswith_def)
  with rmatch_le [OF x(2)] show ?thesis by (simp add: progress_def)
qed

lemma re_match_progress:
  assumes "cs \<noteq> []" and "re_match (Seq (Lit cs) r) s = Some st"
  shows "progress (s, None) st"
proof -
  from assms(2) have "st \<in> set (rmatch (Seq (Lit cs) r) (s, None))"
    by (auto simp: re_match_def simp del: rmatch.simps split: list.splits)
  with assms(1) show ?thesis by (rule lit_seq_progress)
qed

lemma polygon_match_progress:
  "re_match polygon_pattern s = Some st \<Longrightarrow> progress (s, None) st"
  using re_match_progress [of "''((''" _ s st] by (simp add: polygon_pattern_def)

lemma separator_match_progress:
  "re_match ring_separator s = Some st \<Longrightarrow> progress (s, None) st"
  using re_match_progress [of "'')''" _ s st] by (simp add: ring_separator_def)

lemma one_char_rounds_kept: "filter (progress st) (one_char p st) = one_char p st"
  by (rule filter_True) (auto dest: one_char_progress)

lemma nested_rounds_kept:
  "filter (progress st) (rmatch (Seq (Lit ''('') r) st) = rmatch (Seq (Lit ''('') r) st"
  by (rule filter_True) (auto intro!: lit_seq_progress [of "''(''" _ r] simp del: rmatch.simps)

subsection \<open>Stripping a candidate does not change its tokens\<close>

lemma split_ws_spaces:
  "\<forall>c\<in>set w. isspace c \<Longrightarrow> split_ws cur w = (if cur = [] then [] else [cur])"
  by (induction w arbitrary: cur) simp_all

lemma split_ws_trailing:
  "\<forall>c\<in>set w. isspace c \<Longrightarrow> split_ws cur (a @ w) = split_ws cur a"
  by (induction a arbitrary: cur) (simp_all add: split_ws_spaces)

lemma split_ws_leading: "split_ws [] (dropWhile isspace s) = split_ws [] s"
  by (induction s) simp_all

lemma str_split_ws_strip: "str_split_ws (strip s) = str_split_ws s"
proof -
  let ?t = "dropWhile isspace s"
  have "rev (dropWhile isspace (rev ?t)) @ rev (takeWhile isspace (rev ?t)) = ?t"
    by (metis rev_append rev_rev_ident takeWhile_dropWhile_id)
  moreover have "\<forall>c\<in>set (rev (takeWhile isspace (rev ?t))). isspace c"
    by (auto dest: set_takeWhileD)
  ultimately have "split_ws [] (rev (dropWhile isspace (rev ?t))) = split_ws [] ?t"
    by (metis split_ws_trailing)
  then show ?thesis
    by (simp add: str_split_ws_def strip_def split_ws_leading)
qed

lemma tokens_strip: "tokens (strip s) = tokens s"
  by (simp add: tokens_def str_split_ws_strip)

subsection \<open>The loops never raise, and compute the specification's descriptions\<close>

lemma py_float_exn: "py_float t = Inl e \<Longrightarrow> e = ValueError"
  by (cases e) (auto simp: py_float_def Let_def split: prod.splits if_splits option.splits)

text \<open>One round of the loop over the candidates: the candidate contributes or is skipped.\<close>

lemma parse_pairs_step:
  "parse_pairs (p # ps) acc =
     (if contributes p then parse_pairs ps (acc @ [coordinate_of p]) else parse_pairs ps acc)"
proof (cases "2 \<le> length (tokens p)")
  case False
  then show ?thesis by (simp add: contributes_def tokens_strip tokens_def [symmetric])
next
  case True
  then have g: "getitem (tokens p) 0 = Inr (tokens p ! 0)"
    "getitem (tokens p) 1 = Inr (tokens p ! 1)"
    by (auto simp: getitem_def)
  show ?thesis
  proof (cases "py_float (tokens p ! 0)")
    case (Inl e)
    then have "e = ValueError" by (rule py_float_exn)
    with Inl True g show ?thesis
      by (simp add: contributes_def is_float_def tokens_strip tokens_def [symmetric])
  next
    case lon: (Inr lon)
    show ?thesis
    proof (cases "py_float (tokens p ! 1)")
      case (Inl e)
      then have "e = ValueError" by (rule py_float_exn)
      with Inl lon True g show ?thesis
        by (simp add: contributes_def is_float_def tokens_strip tokens_def [symmetric])
    next
      case (Inr lat)
      with lon True g show ?thesis
        by (simp add: contributes_def is_float_def coordinate_of_def float_of_def
            tokens_strip tokens_def [symmetric])
    qed
  qed
qed

lemma parse_pairs_eq:
  "parse_pairs ps acc = Inr (acc @ map coordinate_of (filter contributes ps))"
proof (induction ps arbitrary: acc)
  case Nil
  show ?case by simp
next
  case (Cons p ps)
  show ?case unfolding parse_pairs_step by (simp add: Cons.IH)
qed

lemma parse_coords_eq: "parse_coords s = Inr (coords_of s)"
  by (simp add: parse_coords_def coords_of_def parse_pairs_eq)

lemma parse_rings_eq:
  "parse_rings rs acc = Inr (acc @ filter retained (map ring_of rs))"
  by (induction rs arbitrary: acc) (simp_all add: parse_coords_eq ring_of_def retained_def)

lemma parse_polygons_eq:
  "parse_polygons gs acc = Inr (acc @ filter (\<lambda>rings. rings \<noteq> []) (map rings_of gs))"
  by (induction gs arbitrary: acc) (simp_all add: parse_rings_eq rings_of_def)

lemma simple_polygon_eq: "simple_polygon w [] = Inr (fallback_of w)"
  by (simp add: simple_polygon_def fallback_of_def parse_coords_eq retained_def
      split: option.splits)

lemma collect_polygons_eq:
  "collect_polygons w c = Inr (if polygons_of c = [] then fallback_of w else polygons_of c)"
  by (simp add: collect_polygons_def parse_polygons_eq polygons_of_def simple_polygon_eq)

lemma parse_wkt_eq:
  "parse_wkt_multipolygon (Str s) =
     Inr (if s = [] \<or> \<not> startswith (strip s) ''MULTIPOLYGON'' then None
          else (case re_match outer_pattern (strip s) of
                  None \<Rightarrow> None
                | Some m \<Rightarrow>
                    if polygons_of (group1 m) \<noteq> [] then Some (polygons_of (group1 m))
                    else if fallback_of (strip s) \<noteq> [] then Some (fallback_of (strip s))
                    else None))"
  by (simp add: parse_wkt_multipolygon_def collect_polygons_eq Let_def split: option.splits)

lemma parse_wkt_total: "\<exists>r. parse_wkt_multipolygon wkt = Inr r"
  by (cases wkt) (simp_all add: parse_wkt_eq, simp add: parse_wkt_multipolygon_def)

lemma row_geometry_eq:
  "row_geometry g =
     Inr (case parse_wkt_multipolygon g of
            Inl e \<Rightarrow> None
          | Inr None \<Rightarrow> None
          | Inr (Some ps) \<Rightarrow>
              if length ps = 1 then Some (Polygon (ps ! 0)) else Some (MultiPolygon ps))"
proof -
  obtain r where "parse_wkt_multipolygon g = Inr r" using parse_wkt_total by blast
  then show ?thesis by (cases r) (simp_all add: row_geometry_def getitem_def)
qed

lemma row_feature_eq: "row_feature r = Inr (feature_of r)"
proof -
  obtain g where "row_geometry (the_geom r) = Inr g" using row_geometry_eq by blast
  then show ?thesis by (cases g) (simp_all add: feature_of_def row_feature_def)
qed

lemma collect_features_eq:
  "collect_features rows acc =
     Inr (acc @ map (\<lambda>r. the (feature_of r)) (filter (\<lambda>r. feature_of r \<noteq> None) rows))"
proof (induction rows arbitrary: acc)
  case Nil
  show ?case by simp
next
  case (Cons r rows)
  show ?case by (cases "feature_of r") (simp_all add: row_feature_eq Cons.IH)
qed

lemma feature_of_id: "feature_of r = Some f \<Longrightarrow> feature_id f = NTAName r"
  by (auto simp: feature_of_def row_feature_def split: sum.splits option.splits)

lemma subseq_ids:
  "subseq
     (map (\<lambda>r. feature_id (the (feature_of r))) (filter (\<lambda>r. feature_of r \<noteq> None) rows))
     (map NTAName rows)"
proof (induction rows)
  case Nil
  show ?case by simp
next
  case (Cons r rows)
  show ?case
  proof (cases "feature_of r")
    case None
    with Cons show ?thesis by auto
  next
    case (Some f)
    with Cons feature_of_id [OF Some] show ?thesis by simp
  qed
qed

subsection \<open>What a parsed geometry is made of\<close>







subsection \<open>The claims\<close>

text \<open>
  C1. The specification promises that a polygon group with an exterior ring and a hole is
  matched as one group, so that
  \<open>MULTIPOLYGON (((0 0, 10 0, 10 10, 0 10, 0 0),(2 2, 4 2, 4 4, 2 4, 2 2)))\<close> gives a
  Polygon of two rings. The code does not: the polygon pattern allows \<open>(...)\<close> nested
  inside a group but no \<open>),(\<close> between rings, so it finds no group here. The
  triple-parenthesis path then reads the text of both rings as one ring, in which the
  candidates \<open>0 0)\<close> and \<open>(2 2\<close> fail \<open>float\<close> and are dropped. The result is a Polygon of
  one ring of eight coordinates.
\<close>

theorem hole_polygon_is_read_as_one_ring:
  "re_findall polygon_pattern ''((0 0, 10 0, 10 10, 0 10, 0 0),(2 2, 4 2, 4 4, 2 4, 2 2))'' = []
   \<and> row_geometry
       (Str ''MULTIPOLYGON (((0 0, 10 0, 10 10, 0 10, 0 0),(2 2, 4 2, 4 4, 2 4, 2 2)))'') =
     Inr (Some (Polygon
       [[[Finite 0, Finite 0], [Finite 10, Finite 0], [Finite 10, Finite 10],
         [Finite 0, Finite 10], [Finite 4, Finite 2], [Finite 4, Finite 4],
         [Finite 2, Finite 4], [Finite 2, Finite 2]]]))"
  by code_simp



text \<open>
  C3. \<open>MULTIPOLYGON (((0 0, 1 0, 1 1, 0 1, 0 0)))\<close> gives a Polygon whose coordinates are
  one ring of the five pairs (0,0), (1,0), (1,1), (0,1), (0,0), in this order.
\<close>

theorem single_polygon_example:
  "row_geometry (Str ''MULTIPOLYGON (((0 0, 1 0, 1 1, 0 1, 0 0)))'') =
     Inr (Some (Polygon
       [[[Finite 0, Finite 0], [Finite 1, Finite 0], [Finite 1, Finite 1],
         [Finite 0, Finite 1], [Finite 0, Finite 0]]]))"
  by code_simp

text \<open>
  C4. For every ring string the loop over the comma-separated candidates returns, without
  raising, the coordinates of exactly the candidates that contribute, in order. A
  candidate contributes if and only if it has at least two whitespace-separated tokens
  and \<open>float\<close> accepts both of the first two; its coordinate is then the first token's
  value followed by the second's. Every other candidate is skipped and the loop goes on
  with the next one.
\<close>

theorem coordinate_parser_keeps_exactly_the_parsable_candidates:
  "parse_coords ring_str =
     Inr (map coordinate_of (filter contributes (str_split ring_str CHR '','')))
   \<and> (contributes cand \<longleftrightarrow>
        2 \<le> length (str_split_ws cand)
        \<and> (\<exists>lon. py_float (str_split_ws cand ! 0) = Inr lon)
        \<and> (\<exists>lat. py_float (str_split_ws cand ! 1) = Inr lat))
   \<and> (py_float (str_split_ws cand ! 0) = Inr lon
        \<and> py_float (str_split_ws cand ! 1) = Inr lat
        \<longrightarrow> coordinate_of cand = [lon, lat])
   \<and> parse_pairs (cand # rest) coords =
       parse_pairs rest (if contributes cand then coords @ [coordinate_of cand] else coords)"
proof -
  have "parse_coords ring_str =
      Inr (map coordinate_of (filter contributes (str_split ring_str CHR '','')))"
    using parse_coords_eq [of ring_str] by (simp add: coords_of_def)
  moreover have "contributes cand \<longleftrightarrow>
      2 \<le> length (str_split_ws cand)
      \<and> (\<exists>lon. py_float (str_split_ws cand ! 0) = Inr lon)
      \<and> (\<exists>lat. py_float (str_split_ws cand ! 1) = Inr lat)"
    by (auto simp: contributes_def tokens_def is_float_def split: sum.splits)
  moreover have "py_float (str_split_ws cand ! 0) = Inr lon
      \<and> py_float (str_split_ws cand ! 1) = Inr lat
      \<longrightarrow> coordinate_of cand = [lon, lat]"
    by (simp add: coordinate_of_def tokens_def float_of_def)
  moreover have "parse_pairs (cand # rest) coords =
      parse_pairs rest (if contributes cand then coords @ [coordinate_of cand] else coords)"
    by (cases "contributes cand") (simp_all only: parse_pairs_step if_True if_False)
  ultimately show ?thesis by blast
qed

theorem coordinate_parser_witness:
  "parse_coords ''0 0, x 1, 2.5 -3 9, 7, 4 5'' =
     Inr [[Finite 0, Finite 0], [Finite (5 / 2), Finite (- 3)], [Finite 4, Finite 5]]"
proof -
  have c: "map coordinate_of
      (filter contributes (str_split ''0 0, x 1, 2.5 -3 9, 7, 4 5'' CHR '','')) =
      [[Finite 0, Finite 0], [Finite (5 / 2), Finite (- 3)], [Finite 4, Finite 5]]"
    by code_simp
  show ?thesis
    using coordinate_parser_keeps_exactly_the_parsable_candidates
      [of "''0 0, x 1, 2.5 -3 9, 7, 4 5''" "'' x 1''" "Finite 0" "Finite 0" "[]" "[]"]
    by (simp only: c)
qed

text \<open>
  C5, as amended. A ring of which fewer than 3 coordinates parse is dropped, and a polygon
  group that keeps no ring is dropped. When no polygon group is kept, the
  triple-parenthesis path is tried on the whole string: it finds at most one polygon, of
  one ring, and the row's Feature is omitted exactly when it finds none. Nothing of this
  raises.
\<close>

theorem degenerate_rings_and_polygons_are_dropped:
  "(parse_coords (strip_chars ''()'' (strip ring_str)) = Inr coords \<and> length coords < 3
      \<longrightarrow> parse_rings (ring_str # rest) rings = parse_rings rest rings)
   \<and> (parse_rings (re_split ring_separator poly_content) [] = Inr []
      \<longrightarrow> parse_polygons (poly_content # others) polygons = parse_polygons others polygons)
   \<and> (s \<noteq> [] \<and> startswith (strip s) ''MULTIPOLYGON''
        \<and> re_match outer_pattern (strip s) = Some m
        \<and> parse_polygons (re_findall polygon_pattern (group1 m)) [] = Inr []
        \<and> simple_polygon (strip s) [] = Inr found
      \<longrightarrow> row_geometry (Str s) = Inr (case found of [] \<Rightarrow> None | p # _ \<Rightarrow> Some (Polygon p))
          \<and> (row_feature (r\<lparr>the_geom := Str s\<rparr>) = Inr None \<longleftrightarrow> found = [])
          \<and> (found = [] \<longrightarrow>
               collect_features (r\<lparr>the_geom := Str s\<rparr> # rows) features =
                 collect_features rows features))
   \<and> (\<exists>found. simple_polygon w [] = Inr found \<and> length found \<le> 1)
   \<and> (\<exists>f. row_feature r = Inr f)"
proof -
  have a: "parse_rings (ring_str # rest) rings = parse_rings rest rings"
    if "parse_coords (strip_chars ''()'' (strip ring_str)) = Inr coords" "length coords < 3"
    using that by simp
  have b: "parse_polygons (poly_content # others) polygons = parse_polygons others polygons"
    if "parse_rings (re_split ring_separator poly_content) [] = Inr []"
    using that by simp
  have c: "row_geometry (Str s) = Inr (case found of [] \<Rightarrow> None | p # _ \<Rightarrow> Some (Polygon p))
          \<and> (row_feature (r\<lparr>the_geom := Str s\<rparr>) = Inr None \<longleftrightarrow> found = [])
          \<and> (found = [] \<longrightarrow>
               collect_features (r\<lparr>the_geom := Str s\<rparr> # rows) features =
                 collect_features rows features)"
    if h: "s \<noteq> []" "startswith (strip s) ''MULTIPOLYGON''"
      "re_match outer_pattern (strip s) = Some m"
      "parse_polygons (re_findall polygon_pattern (group1 m)) [] = Inr []"
      "simple_polygon (strip s) [] = Inr found"
  proof -
    have p: "parse_wkt_multipolygon (Str s) = Inr (if found \<noteq> [] then Some found else None)"
      using h by (simp add: parse_wkt_multipolygon_def collect_polygons_def)
    have "length found \<le> 1"
      using h(5) by (auto simp: simple_polygon_eq fallback_of_def split: option.splits if_splits)
    then consider "found = []" | p where "found = [p]"
      by (cases found) auto
    then show ?thesis
    proof cases
      case 1
      with p show ?thesis by (simp add: row_geometry_def row_feature_def)
    next
      case 2
      with p show ?thesis by (simp add: row_geometry_def row_feature_def getitem_def)
    qed
  qed
  have d: "\<exists>found. simple_polygon w [] = Inr found \<and> length found \<le> 1"
    by (simp add: simple_polygon_eq fallback_of_def split: option.splits)
  have e: "\<exists>f. row_feature r = Inr f"
    by (simp add: row_feature_eq)
  from a b c d e show ?thesis by blast
qed

theorem degenerate_ring_witness:
  "parse_rings [''0 0, 1 1''] [] = Inr []
   \<and> parse_polygons [''0 0, 1 1''] [] = Inr []
   \<and> row_feature \<lparr>NTAName = ''Astoria'', BoroName = ''Queens'', NTA2020 = ''QN0103'',
        the_geom = Str ''MULTIPOLYGON (((0 0, 1 1)))''\<rparr> = Inr None"
proof -
  let ?s = "''MULTIPOLYGON (((0 0, 1 1)))''"
  let ?r = "\<lparr>NTAName = ''Astoria'', BoroName = ''Queens'', NTA2020 = ''QN0103'',
    the_geom = NA\<rparr>"
  have h0: "parse_coords (strip_chars ''()'' (strip ''0 0, 1 1'')) =
        Inr [[Finite 0, Finite 0], [Finite 1, Finite 1]]
     \<and> length [[Finite 0, Finite 0], [Finite 1, Finite 1 :: pyfloat]] < 3"
    by code_simp
  have h1: "parse_rings (re_split ring_separator ''0 0, 1 1'') [] = Inr []"
    by code_simp
  have h2: "?s \<noteq> [] \<and> startswith (strip ?s) ''MULTIPOLYGON''
        \<and> re_match outer_pattern (strip ?s) = Some ([], Some ''((0 0, 1 1))'')
        \<and> parse_polygons
            (re_findall polygon_pattern (group1 ([], Some ''((0 0, 1 1))''))) [] = Inr []
        \<and> simple_polygon (strip ?s) [] = Inr []"
    by code_simp
  show ?thesis
    using degenerate_rings_and_polygons_are_dropped [where ring_str = "''0 0, 1 1''"
        and coords = "[[Finite 0, Finite 0], [Finite 1, Finite 1]]"
        and rest = "[]" and rings = "[]" and poly_content = "''0 0, 1 1''" and others = "[]"
        and polygons = "[]" and s = ?s and m = "([], Some ''((0 0, 1 1))'')" and found = "[]"
        and r = ?r and rows = "[]" and features = "[]" and w = "[]"]
      h0 h1 h2
    by simp
qed

text \<open>
  C5, as the claim states it, fails: in \<open>MULTIPOLYGON (((0 0, 1 1)), 2 2, 3 3)))\<close> the one
  polygon group found has one ring, of two coordinates, so the ring and the group are
  dropped; but the triple-parenthesis path then reads \<open>0 0, 1 1)), 2 2, 3 3\<close> as a ring of
  three coordinates, and the row keeps its Feature.
\<close>

theorem sole_degenerate_polygon_counterexample:
  "re_match outer_pattern ''MULTIPOLYGON (((0 0, 1 1)), 2 2, 3 3)))'' =
     Some ([], Some ''((0 0, 1 1)), 2 2, 3 3))'')
   \<and> re_findall polygon_pattern ''((0 0, 1 1)), 2 2, 3 3))'' = [''0 0, 1 1'']
   \<and> re_split ring_separator ''0 0, 1 1'' = [''0 0, 1 1'']
   \<and> parse_coords ''0 0, 1 1'' = Inr [[Finite 0, Finite 0], [Finite 1, Finite 1]]
   \<and> parse_polygons [''0 0, 1 1''] [] = Inr []
   \<and> row_feature \<lparr>NTAName = ''Astoria'', BoroName = ''Queens'', NTA2020 = ''QN0103'',
        the_geom = Str ''MULTIPOLYGON (((0 0, 1 1)), 2 2, 3 3)))''\<rparr> =
      Inr (Some \<lparr>geometry =
                   Polygon [[[Finite 0, Finite 0], [Finite 2, Finite 2], [Finite 3, Finite 3]]],
                 prop_NTAName = ''Astoria'', prop_BoroName = ''Queens'',
                 prop_NTA2020 = ''QN0103'', feature_id = ''Astoria''\<rparr>)"
  by code_simp

text \<open>
  C6. A geometry string that, once stripped, does not begin with \<open>MULTIPOLYGON\<close> (the
  comparison is case-sensitive) gives the return value \<open>None\<close>, and a row that holds it
  adds no Feature to the collection.
\<close>

theorem other_geometry_kinds_are_skipped:
  assumes "\<not> startswith (strip s) ''MULTIPOLYGON''"
  shows "parse_wkt_multipolygon (Str s) = Inr None
    \<and> row_geometry (Str s) = Inr None
    \<and> row_feature (r\<lparr>the_geom := Str s\<rparr>) = Inr None
    \<and> collect_features (r\<lparr>the_geom := Str s\<rparr> # rest) features =
        collect_features rest features"
  using assms by (simp add: parse_wkt_eq row_geometry_def row_feature_def)

theorem other_geometry_kinds_witness:
  "parse_wkt_multipolygon (Str ''POLYGON ((0 0,1 0,1 1,0 0))'') = Inr None
   \<and> parse_wkt_multipolygon (Str ''multipolygon (((0 0,1 0,1 1,0 0)))'') = Inr None
   \<and> create_nta_geojson_full
       [\<lparr>NTAName = ''Astoria'', BoroName = ''Queens'', NTA2020 = ''QN0103'',
         the_geom = Str ''POLYGON ((0 0,1 0,1 1,0 0))''\<rparr>] = Inr []"
proof -
  have h1: "\<not> startswith (strip ''POLYGON ((0 0,1 0,1 1,0 0))'') ''MULTIPOLYGON''"
    by code_simp
  have h2: "\<not> startswith (strip ''multipolygon (((0 0,1 0,1 1,0 0)))'') ''MULTIPOLYGON''"
    by code_simp
  show ?thesis
    using other_geometry_kinds_are_skipped
      [OF h1, of "\<lparr>NTAName = ''Astoria'', BoroName = ''Queens'', NTA2020 = ''QN0103'',
         the_geom = NA\<rparr>" "[]" "[]"]
      other_geometry_kinds_are_skipped
        [OF h2, of "\<lparr>NTAName = ''Astoria'', BoroName = ''Queens'', NTA2020 = ''QN0103'',
         the_geom = NA\<rparr>" "[]" "[]"]
    by (simp add: create_nta_geojson_full_def)
qed

text \<open>
  C7. When the polygon pattern finds no group in the content of the outer parentheses, the
  result is that of the triple-parenthesis path: the first \<open>(((...)))\<close> block of the
  stripped string, if there is one, is parsed as a whole by the loop over the candidates
  and becomes the one ring of the one polygon returned (no ring is split off as a hole),
  subject to the threshold of 3 coordinates that every ring is subject to. When there is
  no such block, or it gives no ring, the return value is \<open>None\<close>.
\<close>

theorem fallback_reads_one_ring_of_one_polygon:
  assumes "s \<noteq> []" and "startswith (strip s) ''MULTIPOLYGON''"
    and "re_match outer_pattern (strip s) = Some m"
    and "re_findall polygon_pattern (group1 m) = []"
  shows "parse_wkt_multipolygon (Str s) =
     Inr (case re_search triple_pattern (strip s) of
            None \<Rightarrow> None
          | Some cm \<Rightarrow>
              if 3 \<le> length (coords_of (group1 cm)) then Some [[coords_of (group1 cm)]]
              else None)
    \<and> (\<forall>cm. re_search triple_pattern (strip s) = Some cm \<longrightarrow>
          simple_polygon (strip s) [] =
            Inr (if 3 \<le> length (coords_of (group1 cm)) then [[coords_of (group1 cm)]]
                 else [])
          \<and> parse_coords (group1 cm) = Inr (coords_of (group1 cm)))"
  using assms
  by (auto simp: parse_wkt_eq polygons_of_def fallback_of_def retained_def
      simple_polygon_def parse_coords_eq split: option.splits)

theorem fallback_witness:
  "parse_wkt_multipolygon (Str ''MULTIPOLYGON (((0 0, 1 0, 1 1, 2 2), (5 5)))'') =
     Inr (Some [[[[Finite 0, Finite 0], [Finite 1, Finite 0], [Finite 1, Finite 1]]]])"
proof -
  let ?s = "''MULTIPOLYGON (((0 0, 1 0, 1 1, 2 2), (5 5)))''"
  have h1: "?s \<noteq> []" by simp
  have h2: "startswith (strip ?s) ''MULTIPOLYGON''" by code_simp
  have h3: "re_match outer_pattern (strip ?s) =
      Some ([], Some ''((0 0, 1 0, 1 1, 2 2), (5 5))'')"
    by code_simp
  have h4: "re_findall polygon_pattern
      (group1 ([], Some ''((0 0, 1 0, 1 1, 2 2), (5 5))'')) = []"
    by code_simp
  have e: "(case re_search triple_pattern (strip ?s) of
            None \<Rightarrow> None
          | Some cm \<Rightarrow>
              if 3 \<le> length (coords_of (group1 cm)) then Some [[coords_of (group1 cm)]]
              else None) =
      Some [[[[Finite 0, Finite 0], [Finite 1, Finite 0], [Finite 1, Finite 1]]]]"
    by code_simp
  show ?thesis
    using fallback_reads_one_ring_of_one_polygon [OF h1 h2 h3 h4] by (simp only: e)
qed


text \<open>
  C9. The collection has at most as many features as there are rows, and its features are
  those of the rows that have one, in the order of the rows: the identifiers of the
  features are a subsequence of the names of the rows.
\<close>

theorem features_follow_row_order:
  "(case create_nta_geojson_full nta_geo of
      Inl e \<Rightarrow> False
    | Inr features \<Rightarrow>
        length features \<le> length nta_geo
        \<and> features =
            map (\<lambda>r. the (feature_of r)) (filter (\<lambda>r. feature_of r \<noteq> None) nta_geo)
        \<and> subseq (map feature_id features) (map NTAName nta_geo))"
  using subseq_ids [of nta_geo]
  by (simp add: create_nta_geojson_full_def collect_features_eq comp_def)

theorem features_follow_row_order_witness:
  "create_nta_geojson_full
     [\<lparr>NTAName = ''A'', BoroName = ''Queens'', NTA2020 = ''1'',
        the_geom = Str ''MULTIPOLYGON (((0 0, 1 0, 1 1, 0 0)))''\<rparr>,
      \<lparr>NTAName = ''B'', BoroName = ''Queens'', NTA2020 = ''2'', the_geom = NA\<rparr>,
      \<lparr>NTAName = ''C'', BoroName = ''Bronx'', NTA2020 = ''3'',
        the_geom = Str ''MULTIPOLYGON (((5 5, 6 5, 6 6, 5 5)))''\<rparr>] =
   Inr [\<lparr>geometry = Polygon [[[Finite 0, Finite 0], [Finite 1, Finite 0],
                               [Finite 1, Finite 1], [Finite 0, Finite 0]]],
         prop_NTAName = ''A'', prop_BoroName = ''Queens'', prop_NTA2020 = ''1'',
         feature_id = ''A''\<rparr>,
        \<lparr>geometry = Polygon [[[Finite 5, Finite 5], [Finite 6, Finite 5],
                               [Finite 6, Finite 6], [Finite 5, Finite 5]]],
         prop_NTAName = ''C'', prop_BoroName = ''Bronx'', prop_NTA2020 = ''3'',
         feature_id = ''C''\<rparr>]"
proof -
  let ?rows = "[\<lparr>NTAName = ''A'', BoroName = ''Queens'', NTA2020 = ''1'',
        the_geom = Str ''MULTIPOLYGON (((0 0, 1 0, 1 1, 0 0)))''\<rparr>,
      \<lparr>NTAName = ''B'', BoroName = ''Queens'', NTA2020 = ''2'', the_geom = NA\<rparr>,
      \<lparr>NTAName = ''C'', BoroName = ''Bronx'', NTA2020 = ''3'',
        the_geom = Str ''MULTIPOLYGON (((5 5, 6 5, 6 6, 5 5)))''\<rparr>]"
  have e: "map (\<lambda>r. the (feature_of r)) (filter (\<lambda>r. feature_of r \<noteq> None) ?rows) =
     [\<lparr>geometry = Polygon [[[Finite 0, Finite 0], [Finite 1, Finite 0],
                               [Finite 1, Finite 1], [Finite 0, Finite 0]]],
         prop_NTAName = ''A'', prop_BoroName = ''Queens'', prop_NTA2020 = ''1'',
         feature_id = ''A''\<rparr>,
        \<lparr>geometry = Polygon [[[Finite 5, Finite 5], [Finite 6, Finite 5],
                               [Finite 6, Finite 6], [Finite 5, Finite 5]]],
         prop_NTAName = ''C'', prop_BoroName = ''Bronx'', prop_NTA2020 = ''3'',
         feature_id = ''C''\<rparr>]"
    by code_simp
  show ?thesis
    using features_follow_row_order [of ?rows] unfolding e by (auto split: sum.splits)
qed



end
